theory Spec2Isabelle
  imports Main "HOL-Library.AList"
begin

section \<open>Python builtins used by the modelled code\<close>

text \<open>
  \<^verbatim>\<open>str.split(sep)\<close> with a one-character separator: the substrings between the
  separators, in order. The empty string splits into one empty substring, and a
  leading, trailing or doubled separator gives an empty substring.
\<close>

fun str_split :: "char \<Rightarrow> string \<Rightarrow> string list" where
  "str_split sep [] = [[]]"
| "str_split sep (c # cs) =
     (if c = sep then [] # str_split sep cs
      else (case str_split sep cs of
              w # ws \<Rightarrow> (c # w) # ws
            | [] \<Rightarrow> [[c]]))"

section \<open>Package scope cache (beartype/claw/\_clawpackagenames.py)\<close>

text \<open>
  \<^verbatim>\<open>_PackageBasenameToSubpackagesDict\<close>: a \<^verbatim>\<open>dict\<close> subclass from package basenames to
  nested instances of the same class, with the one slot \<^verbatim>\<open>conf_if_registered\<close>
  (\<^verbatim>\<open>None\<close> after \<^verbatim>\<open>__init__\<close>). The dictionary is an association list in insertion
  order. A configuration \<^verbatim>\<open>BeartypeConf\<close> is opaque: the code compares two of them with
  \<^verbatim>\<open>is not\<close> only, so a value of \<open>'c\<close> stands for the identity of the configuration
  object.
\<close>

datatype 'c PackageBasenameToSubpackagesDict =
  PackageBasenameToSubpackagesDict
    (conf_if_registered: "'c option")
    (subpackages: "(string \<times> 'c PackageBasenameToSubpackagesDict) list")

text \<open>The cache as the module creates it: \<^verbatim>\<open>_PackageBasenameToSubpackagesDict()\<close>.\<close>

definition package_cache_empty :: "'c PackageBasenameToSubpackagesDict" where
  "package_cache_empty = PackageBasenameToSubpackagesDict None []"

text \<open>
  All failures of \<^verbatim>\<open>register_packages\<close> are \<^verbatim>\<open>BeartypeClawRegistrationException\<close>; the
  constructors tell the raise statements (and what their messages quote) apart.
\<close>

datatype 'c claw_error =
    ConfInvalid
  | PackageNamesNotIterable
  | PackageNamesEmpty
  | PackageNameNotString
  | PackageNameInvalid string
  | PackageConfDiffers string 'c 'c

text \<open>
  The loop of \<^verbatim>\<open>is_package_registered\<close> over \<^verbatim>\<open>package_basenames\<close>. The first argument
  is the global \<^verbatim>\<open>_package_basename_to_subpackages\<close> (the root of the cache), the third
  the loop variable \<^verbatim>\<open>package_basename_to_subpackages_curr\<close>. A missing basename
  breaks out of the loop, after which the function returns \<^verbatim>\<open>False\<close>; the \<^verbatim>\<open>elif\<close> reads
  \<^verbatim>\<open>conf_if_registered\<close> of the global, as the source does.
\<close>

fun is_package_registered_loop ::
  "'c PackageBasenameToSubpackagesDict \<Rightarrow> string list \<Rightarrow>
   'c PackageBasenameToSubpackagesDict \<Rightarrow> bool" where
  "is_package_registered_loop cache [] subpackages_curr = False"
| "is_package_registered_loop cache (package_basename # rest) subpackages_curr =
     (case map_of (subpackages subpackages_curr) package_basename of
        None \<Rightarrow> False
      | Some package_subpackages \<Rightarrow>
          if conf_if_registered cache \<noteq> None then True
          else is_package_registered_loop cache rest package_subpackages)"

definition is_package_registered ::
  "'c PackageBasenameToSubpackagesDict \<Rightarrow> string \<Rightarrow> bool" where
  "is_package_registered cache package_name =
     (if conf_if_registered cache \<noteq> None then True
      else is_package_registered_loop cache (str_split CHR ''.'' package_name) cache)"

text \<open>\<^verbatim>\<open>bool(_package_basename_to_subpackages)\<close>: a dictionary is true when it has a key.\<close>

definition is_packages_registered_any :: "'c PackageBasenameToSubpackagesDict \<Rightarrow> bool" where
  "is_packages_registered_any cache = (subpackages cache \<noteq> [])"

text \<open>
  The registration of one package name: the inner loop of \<^verbatim>\<open>register_packages\<close> walks
  the basenames from the current dictionary, creating a fresh empty dictionary under
  each basename that \<^verbatim>\<open>dict.get\<close> does not find, and the statements after the loop set
  or compare \<^verbatim>\<open>conf_if_registered\<close> of the dictionary the walk ended at. The Python
  mutates the nested dictionaries in place; the model returns the rebuilt dictionary
  together with the exception raised, if any, so that what the walk created before a
  raise stays in the cache.
\<close>

fun register_package_basenames ::
  "string \<Rightarrow> 'c \<Rightarrow> string list \<Rightarrow> 'c PackageBasenameToSubpackagesDict \<Rightarrow>
   'c claw_error option \<times> 'c PackageBasenameToSubpackagesDict" where
  "register_package_basenames package_name conf [] subpackages_curr =
     (case conf_if_registered subpackages_curr of
        None \<Rightarrow> (None, PackageBasenameToSubpackagesDict (Some conf) (subpackages subpackages_curr))
      | Some conf_curr \<Rightarrow>
          if conf_curr \<noteq> conf
          then (Some (PackageConfDiffers package_name conf_curr conf), subpackages_curr)
          else (None, subpackages_curr))"
| "register_package_basenames package_name conf (package_basename # rest) subpackages_curr =
     (let package_subpackages =
            (case map_of (subpackages subpackages_curr) package_basename of
               None \<Rightarrow> PackageBasenameToSubpackagesDict None []
             | Some d \<Rightarrow> d);
          (raised, package_subpackages') =
            register_package_basenames package_name conf rest package_subpackages
      in (raised,
          PackageBasenameToSubpackagesDict (conf_if_registered subpackages_curr)
            (AList.update package_basename package_subpackages' (subpackages subpackages_curr))))"

text \<open>The registration loop over the package names: it stops at the first raise.\<close>

fun register_packages_loop ::
  "'c \<Rightarrow> string list \<Rightarrow> 'c PackageBasenameToSubpackagesDict \<Rightarrow>
   'c claw_error option \<times> 'c PackageBasenameToSubpackagesDict" where
  "register_packages_loop conf [] cache = (None, cache)"
| "register_packages_loop conf (package_name # rest) cache =
     (case register_package_basenames package_name conf
             (str_split CHR ''.'' package_name) cache of
        (Some e, cache') \<Rightarrow> (Some e, cache')
      | (None, cache') \<Rightarrow> register_packages_loop conf rest cache')"

text \<open>
  The arguments of \<^verbatim>\<open>register_packages\<close> as Python values: \<^verbatim>\<open>conf\<close> is a
  \<^verbatim>\<open>BeartypeConf\<close> or some other object. \<^verbatim>\<open>package_names\<close> is a string; or a
  collection of items (a list or a tuple), each a string or some other object,
  which is false when it is empty and yields its items every time it is iterated;
  or a one-shot iterator (a generator) over such items, which is always true and
  yields nothing once a loop has consumed it; or an object that is not iterable.
\<close>

datatype 'c conf_arg = BeartypeConf 'c | ConfOther

datatype package_name_item = NameStr string | NameOther

datatype package_names_arg =
    PackageName string
  | PackageNames "package_name_item list"
  | PackageNamesIterator "package_name_item list"
  | PackageNamesOther

text \<open>
  The validation loop: the first item that is not a string, or that
  \<^verbatim>\<open>is_identifier\<close> rejects, raises. \<^verbatim>\<open>is_identifier\<close> comes from
  \<^verbatim>\<open>beartype._util.text.utiltextident\<close>, which is not among the source files, and is a
  parameter.
\<close>

fun validate_package_names ::
  "(string \<Rightarrow> bool) \<Rightarrow> package_name_item list \<Rightarrow> 'c claw_error option" where
  "validate_package_names is_identifier [] = None"
| "validate_package_names is_identifier (NameOther # rest) = Some PackageNameNotString"
| "validate_package_names is_identifier (NameStr package_name # rest) =
     (if \<not> is_identifier package_name then Some (PackageNameInvalid package_name)
      else validate_package_names is_identifier rest)"

fun package_name_strings :: "package_name_item list \<Rightarrow> string list" where
  "package_name_strings [] = []"
| "package_name_strings (NameStr s # rest) = s # package_name_strings rest"
| "package_name_strings (NameOther # rest) = package_name_strings rest"

text \<open>
  \<^verbatim>\<open>register_packages\<close>. After the tests of the two arguments, the validation loop
  and the registration loop each iterate \<^verbatim>\<open>package_names\<close>: the triple below holds
  what the first loop iterates, what the second loop iterates, and whether
  \<^verbatim>\<open>not package_names\<close> is true.
\<close>

definition register_packages ::
  "(string \<Rightarrow> bool) \<Rightarrow> package_names_arg \<Rightarrow> 'c conf_arg \<Rightarrow>
   'c PackageBasenameToSubpackagesDict \<Rightarrow>
   'c claw_error option \<times> 'c PackageBasenameToSubpackagesDict" where
  "register_packages is_identifier package_names conf_arg cache =
     (case conf_arg of
        ConfOther \<Rightarrow> (Some ConfInvalid, cache)
      | BeartypeConf conf \<Rightarrow>
          (case (case package_names of
                   PackageName s \<Rightarrow> Some ([NameStr s], [NameStr s], False)
                 | PackageNames items \<Rightarrow> Some (items, items, items = [])
                 | PackageNamesIterator items \<Rightarrow> Some (items, [], False)
                 | PackageNamesOther \<Rightarrow> None) of
             None \<Rightarrow> (Some PackageNamesNotIterable, cache)
           | Some (validated, registered, is_empty) \<Rightarrow>
               if is_empty then (Some PackageNamesEmpty, cache)
               else (case validate_package_names is_identifier validated of
                       Some e \<Rightarrow> (Some e, cache)
                     | None \<Rightarrow>
                         register_packages_loop conf (package_name_strings registered)
                           cache)))"

text \<open>
  The dictionary a dotted path of basenames leads to, when every basename on the way
  is a key: the node the claims call the terminal node of a scope path.
\<close>

fun package_node ::
  "string list \<Rightarrow> 'c PackageBasenameToSubpackagesDict \<Rightarrow>
   'c PackageBasenameToSubpackagesDict option" where
  "package_node [] subpackages_curr = Some subpackages_curr"
| "package_node (package_basename # rest) subpackages_curr =
     (case map_of (subpackages subpackages_curr) package_basename of
        None \<Rightarrow> None
      | Some d \<Rightarrow> package_node rest d)"

section \<open>Hint registry (beartype/\_decor/\_typistry.py)\<close>

subsection \<open>Python values and the external collaborators\<close>

text \<open>
  The Python objects the registry handles: \<^verbatim>\<open>None\<close>, strings, classes (the instances
  of \<^verbatim>\<open>type\<close>), tuples, and any other object, told apart by its identity. A class is
  given by the module declaring it and its name there. All objects are taken
  hashable, as the memoizing registrars need their arguments to be.
\<close>

datatype pyclass = PyClass (class_module: string) (class_name: string)

datatype pyobj =
    PyNone
  | PyStr string
  | PyType pyclass
  | PyTuple "pyobj list"
  | PyObject nat

text \<open>
  The exceptions of the registry. \<^verbatim>\<open>DieUnlessClassException\<close> is what
  \<^verbatim>\<open>die_unless_class\<close> raises (its class is not named in the source files);
  \<^verbatim>\<open>ImportTimeException\<close> is any exception a module raises while it is imported.
\<close>

datatype py_exception =
    BeartypeDecorBeartypistryException
  | BeartypeDecorHintForwardRefException
  | BeartypeCallHintForwardRefException
  | DieUnlessClassException
  | ImportTimeException nat

text \<open>
  What \<^verbatim>\<open>importlib.import_module\<close> does for a module name: it raises
  \<^verbatim>\<open>ModuleNotFoundError\<close>, or the module raises some exception while it is imported,
  or the module comes back, given by its attributes.
\<close>

datatype import_result =
    ModuleNotFoundError
  | ImportRaises nat
  | ImportedModule "(string \<times> pyobj) list"

text \<open>
  The functions the registry calls that are Python builtins or live in submodules
  that are not among the source files; they are parameters of the model:
  \<^item> \<^verbatim>\<open>PARAM_NAME_TYPISTRY\<close> (\<^verbatim>\<open>beartype._decor._code.codesnip\<close>);
  \<^item> \<^verbatim>\<open>repr\<close> on strings, \<^verbatim>\<open>hash\<close> on tuples, and \<^verbatim>\<open>tuple(set(hint))\<close>, whose order is
    the iteration order of the set;
  \<^item> \<^verbatim>\<open>die_unless_module_attr_name\<close>, as the predicate it raises unless;
  \<^item> \<^verbatim>\<open>get_object_classname\<close>, \<^verbatim>\<open>get_object_class_basename\<close>
    (\<^verbatim>\<open>beartype._util.utilobject\<close>), \<^verbatim>\<open>is_class_builtin\<close>, \<^verbatim>\<open>is_classname_builtin\<close>
    (\<^verbatim>\<open>beartype._util.utilclass\<close>);
  \<^item> the classification of one tuple item as a plain (PEP-noncompliant) class, used by
    \<^verbatim>\<open>die_unless_hint_nonpep\<close>;
  \<^item> \<^verbatim>\<open>importlib.import_module\<close>, as the state of the importable world at the time of
    the call.
\<close>

record externals =
  PARAM_NAME_TYPISTRY :: string
  py_repr :: "string \<Rightarrow> string"
  py_hash :: "pyobj list \<Rightarrow> int"
  py_tuple_of_set :: "pyobj list \<Rightarrow> pyobj list"
  is_module_attr_name :: "string \<Rightarrow> bool"
  get_object_classname :: "pyclass \<Rightarrow> string"
  get_object_class_basename :: "pyclass \<Rightarrow> string"
  is_class_builtin :: "pyclass \<Rightarrow> bool"
  is_classname_builtin :: "string \<Rightarrow> bool"
  is_plain_class :: "pyobj \<Rightarrow> bool"
  importlib_import_module :: "string \<Rightarrow> import_result"

text \<open>\<^verbatim>\<open>str(n)\<close> for an integer: its decimal digits, after a minus sign when negative.\<close>

definition digit_char :: "nat \<Rightarrow> char" where
  "digit_char d =
     (if d = 0 then CHR ''0'' else if d = 1 then CHR ''1'' else if d = 2 then CHR ''2''
      else if d = 3 then CHR ''3'' else if d = 4 then CHR ''4'' else if d = 5 then CHR ''5''
      else if d = 6 then CHR ''6'' else if d = 7 then CHR ''7'' else if d = 8 then CHR ''8''
      else CHR ''9'')"

fun str_of_nat :: "nat \<Rightarrow> string" where
  "str_of_nat n =
     (if n < 10 then [digit_char n]
      else str_of_nat (n div 10) @ [digit_char (n mod 10)])"

definition str_of_int :: "int \<Rightarrow> string" where
  "str_of_int i = (if i < 0 then CHR ''-'' # str_of_nat (nat (- i)) else str_of_nat (nat i))"

text \<open>
  \<^verbatim>\<open>s.rpartition(sep)\<close>: the part before the last separator, the separator and the part
  after it; two empty strings and \<^verbatim>\<open>s\<close> when there is no separator.
\<close>

definition str_rpartition :: "char \<Rightarrow> string \<Rightarrow> string \<times> string \<times> string" where
  "str_rpartition sep s =
     (if sep \<in> set s
      then (rev (tl (dropWhile (\<lambda>c. c \<noteq> sep) (rev s))), [sep],
            rev (takeWhile (\<lambda>c. c \<noteq> sep) (rev s)))
      else ([], [], s))"

text \<open>\<^verbatim>\<open>s.startswith(prefix)\<close>.\<close>

definition str_startswith :: "string \<Rightarrow> string \<Rightarrow> bool" where
  "str_startswith s pre = (take (length pre) s = pre)"

subsection \<open>Importers (beartype/\_util/mod/utilmodule.py)\<close>

definition import_module ::
  "externals \<Rightarrow> string \<Rightarrow> py_exception \<Rightarrow> py_exception + (string \<times> pyobj) list" where
  "import_module ext module_name exception_cls =
     (case importlib_import_module ext module_name of
        ImportedModule attrs \<Rightarrow> Inr attrs
      | ModuleNotFoundError \<Rightarrow> Inl exception_cls
      | ImportRaises e \<Rightarrow> Inl (ImportTimeException e))"

text \<open>
  \<^verbatim>\<open>getattr(module, module_attr_basename, None)\<close> is the attribute, or \<^verbatim>\<open>None\<close> when the
  module has none of that name.
\<close>

definition import_module_attr_or_none ::
  "externals \<Rightarrow> string \<Rightarrow> py_exception \<Rightarrow> py_exception + pyobj" where
  "import_module_attr_or_none ext module_attr_name exception_cls =
     (if \<not> is_module_attr_name ext module_attr_name then Inl exception_cls
      else (case str_rpartition CHR ''.'' module_attr_name of
              (module_name, _, module_attr_basename) \<Rightarrow>
                (case import_module ext module_name exception_cls of
                   Inl e \<Rightarrow> Inl e
                 | Inr attrs \<Rightarrow>
                     Inr (case map_of attrs module_attr_basename of
                            None \<Rightarrow> PyNone
                          | Some v \<Rightarrow> v))))"

definition import_module_attr ::
  "externals \<Rightarrow> string \<Rightarrow> py_exception \<Rightarrow> py_exception + pyobj" where
  "import_module_attr ext module_attr_name exception_cls =
     (case import_module_attr_or_none ext module_attr_name exception_cls of
        Inl e \<Rightarrow> Inl e
      | Inr module_attr \<Rightarrow>
          if module_attr = PyNone then Inl exception_cls else Inr module_attr)"

subsection \<open>The Beartypistry dictionary\<close>

text \<open>
  The singleton \<^verbatim>\<open>bear_typistry\<close> is a \<^verbatim>\<open>dict\<close> subclass; its state is the association
  list of its items in insertion order. Every function that reads or writes the
  singleton takes that state and returns it with its result.
\<close>

type_synonym beartypistry = "(string \<times> pyobj) list"

text \<open>\<^verbatim>\<open>hint_name in bear_typistry\<close>: \<^verbatim>\<open>dict.__contains__\<close>, which never calls \<^verbatim>\<open>__missing__\<close>.\<close>

definition Beartypistry_contains :: "beartypistry \<Rightarrow> string \<Rightarrow> bool" where
  "Beartypistry_contains self hint_name = (map_of self hint_name \<noteq> None)"

text \<open>
  Modelled from the spec: \<^verbatim>\<open>die_unless_hint_nonpep\<close>, of
  \<^verbatim>\<open>beartype._util.hint.nonpep.utilhintnonpeptest\<close>, which is not among the source
  files. For a tuple the spec says that every element must be a plain class; the
  classification of one element is the parameter \<open>is_plain_class\<close>.
\<close>

definition die_unless_hint_nonpep ::
  "externals \<Rightarrow> pyobj list \<Rightarrow> py_exception \<Rightarrow> py_exception option" where
  "die_unless_hint_nonpep ext hint exception_cls =
     (if list_all (is_plain_class ext) hint then None else Some exception_cls)"

text \<open>
  \<^verbatim>\<open>Beartypistry.__setitem__\<close>: the chain of \<^verbatim>\<open>if\<close>/\<^verbatim>\<open>elif\<close> tests in the order of the
  source, each raising \<^verbatim>\<open>_BeartypeDecorBeartypistryException\<close>; when none raises,
  \<^verbatim>\<open>super().__setitem__\<close> adds the new key after the existing ones.
\<close>

definition Beartypistry_setitem ::
  "externals \<Rightarrow> beartypistry \<Rightarrow> pyobj \<Rightarrow> pyobj \<Rightarrow> py_exception option \<times> beartypistry" where
  "Beartypistry_setitem ext self key hint =
     (case key of
        PyStr hint_name \<Rightarrow>
          if Beartypistry_contains self hint_name
          then (Some BeartypeDecorBeartypistryException, self)
          else (case hint of
                  PyType cls \<Rightarrow>
                    (let hint_clsname = get_object_classname ext cls
                     in if hint_name \<noteq> hint_clsname \<and> \<not> is_classname_builtin ext hint_clsname
                        then (Some BeartypeDecorBeartypistryException, self)
                        else (None, self @ [(hint_name, hint)]))
                | PyTuple items \<Rightarrow>
                    (case die_unless_hint_nonpep ext items BeartypeDecorBeartypistryException of
                       Some e \<Rightarrow> (Some e, self)
                     | None \<Rightarrow>
                         if \<not> str_startswith hint_name ''+''
                         then (Some BeartypeDecorBeartypistryException, self)
                         else (None, self @ [(hint_name, hint)]))
                | _ \<Rightarrow> (Some BeartypeDecorBeartypistryException, self))
      | _ \<Rightarrow> (Some BeartypeDecorBeartypistryException, self))"

text \<open>
  \<^verbatim>\<open>Beartypistry.__missing__\<close>: the imported attribute when it is a class, and
  \<^verbatim>\<open>BeartypeCallHintForwardRefException\<close> otherwise. The method has no assignment to
  \<^verbatim>\<open>self\<close>.
\<close>

definition Beartypistry_missing :: "externals \<Rightarrow> string \<Rightarrow> py_exception + pyobj" where
  "Beartypistry_missing ext hint_classname =
     (case import_module_attr ext hint_classname BeartypeCallHintForwardRefException of
        Inl e \<Rightarrow> Inl e
      | Inr hint_class \<Rightarrow>
          (case hint_class of
             PyType cls \<Rightarrow> Inr hint_class
           | _ \<Rightarrow> Inl BeartypeCallHintForwardRefException))"

text \<open>
  \<^verbatim>\<open>bear_typistry[hint_classname]\<close>: the class defines no \<^verbatim>\<open>__getitem__\<close>, so this is
  \<^verbatim>\<open>dict.__getitem__\<close> of Python: the value of a key that is present; for a key that
  is not, whatever \<^verbatim>\<open>__missing__\<close> returns or raises. \<^verbatim>\<open>dict.__getitem__\<close> itself
  stores nothing (only \<^verbatim>\<open>collections.defaultdict.__missing__\<close> inserts, by its own
  assignment).
\<close>

definition Beartypistry_getitem ::
  "externals \<Rightarrow> beartypistry \<Rightarrow> string \<Rightarrow> (py_exception + pyobj) \<times> beartypistry" where
  "Beartypistry_getitem ext self hint_classname =
     (case map_of self hint_classname of
        Some hint \<Rightarrow> (Inr hint, self)
      | None \<Rightarrow> (Beartypistry_missing ext hint_classname, self))"

subsection \<open>Registrars\<close>

text \<open>
  The three registrars are wrapped by \<^verbatim>\<open>@callable_cached\<close>
  (\<^verbatim>\<open>beartype._util.cache.utilcachecall\<close>, not among the source files), which returns
  the result of an earlier call with the same arguments. The definitions are the
  bodies of the registrars: what a call does whose arguments are not in that cache.
\<close>

text \<open>
  The expression a registrar returns:
  \<^verbatim>\<open>f'{_CODE_TYPISTRY_HINT_NAME_TO_HINT_PREFIX}{repr(hint_name)}{_CODE_TYPISTRY_HINT_NAME_TO_HINT_SUFFIX}'\<close>.
\<close>

definition code_typistry_hint_name_to_hint :: "externals \<Rightarrow> string \<Rightarrow> string" where
  "code_typistry_hint_name_to_hint ext hint_name =
     (PARAM_NAME_TYPISTRY ext @ ''['') @ py_repr ext hint_name @ '']''"

definition register_typistry_forwardref ::
  "externals \<Rightarrow> beartypistry \<Rightarrow> string \<Rightarrow> (py_exception + string) \<times> beartypistry" where
  "register_typistry_forwardref ext bear_typistry hint_classname =
     (if \<not> is_module_attr_name ext hint_classname
      then (Inl BeartypeDecorHintForwardRefException, bear_typistry)
      else (Inr (code_typistry_hint_name_to_hint ext hint_classname), bear_typistry))"

definition register_typistry_type ::
  "externals \<Rightarrow> beartypistry \<Rightarrow> pyobj \<Rightarrow> (py_exception + string) \<times> beartypistry" where
  "register_typistry_type ext bear_typistry hint =
     (case hint of
        PyType cls \<Rightarrow>
          if is_class_builtin ext cls
          then (Inr (get_object_class_basename ext cls), bear_typistry)
          else (let hint_classname = get_object_classname ext cls
                in case Beartypistry_setitem ext bear_typistry (PyStr hint_classname) hint of
                     (Some e, bear_typistry') \<Rightarrow> (Inl e, bear_typistry')
                   | (None, bear_typistry') \<Rightarrow>
                       (Inr (code_typistry_hint_name_to_hint ext hint_classname),
                        bear_typistry'))
      | _ \<Rightarrow> (Inl DieUnlessClassException, bear_typistry))"

text \<open>
  The loop \<^verbatim>\<open>while hint_name in bear_typistry: hint_name += '~'\<close>. Each round makes
  the name longer, and a name longer than all keys is not a key, so the loop ends.
\<close>

function disambiguate_hint_name :: "beartypistry \<Rightarrow> string \<Rightarrow> string" where
  "disambiguate_hint_name bear_typistry hint_name =
     (if Beartypistry_contains bear_typistry hint_name
      then disambiguate_hint_name bear_typistry (hint_name @ ''~'')
      else hint_name)"
  by pat_completeness auto

termination
proof (relation "measure (\<lambda>(s, k). Suc (sum_list (map (\<lambda>p. length (fst p)) s)) - length k)")
  show "wf (measure (\<lambda>(s, k). Suc (sum_list (map (\<lambda>p. length (fst p)) s)) - length k))"
    by simp
next
  fix bear_typistry :: beartypistry and hint_name :: string
  assume present: "Beartypistry_contains bear_typistry hint_name"
  have "length hint_name \<le> sum_list (map (\<lambda>p. length (fst p)) bear_typistry)"
    using present
    by (induction bear_typistry) (auto simp: Beartypistry_contains_def split: if_splits)
  then show "((bear_typistry, hint_name @ ''~''), (bear_typistry, hint_name))
        \<in> measure (\<lambda>(s, k). Suc (sum_list (map (\<lambda>p. length (fst p)) s)) - length k)"
    by simp
qed

declare disambiguate_hint_name.simps [simp del]

text \<open>
  \<^verbatim>\<open>register_typistry_tuple\<close>. For a tuple of one item the source calls the memoized
  \<^verbatim>\<open>register_typistry_type\<close>; the model runs its body there, which is that call for a
  class that \<^verbatim>\<open>register_typistry_type\<close> has not been called with before.
\<close>

definition register_typistry_tuple ::
  "externals \<Rightarrow> beartypistry \<Rightarrow> pyobj \<Rightarrow> bool \<Rightarrow> (py_exception + string) \<times> beartypistry" where
  "register_typistry_tuple ext bear_typistry hint_arg is_types_unique =
     (case hint_arg of
        PyTuple items \<Rightarrow>
          (case items of
             [item] \<Rightarrow> register_typistry_type ext bear_typistry item
           | _ \<Rightarrow>
               (let hint = (if \<not> is_types_unique then py_tuple_of_set ext items else items);
                    hint_name = disambiguate_hint_name bear_typistry
                                  (''+'' @ str_of_int (py_hash ext hint))
                in case Beartypistry_setitem ext bear_typistry (PyStr hint_name) (PyTuple hint) of
                     (Some e, bear_typistry') \<Rightarrow> (Inl e, bear_typistry')
                   | (None, bear_typistry') \<Rightarrow>
                       (Inr (code_typistry_hint_name_to_hint ext hint_name), bear_typistry')))
      | _ \<Rightarrow> (Inl BeartypeDecorBeartypistryException, bear_typistry))"

section \<open>Syntax tree rewriter (beartype/claw/\_clawast.py)\<close>

subsection \<open>Syntax trees\<close>

text \<open>
  The source code metadata of a node: the attributes \<^verbatim>\<open>lineno\<close>, \<^verbatim>\<open>col_offset\<close>,
  \<^verbatim>\<open>end_lineno\<close> and \<^verbatim>\<open>end_col_offset\<close>. \<open>None\<close> is an attribute the node does not
  have: a node that a constructor call has just built has none of them. Reading
  \<^verbatim>\<open>lineno\<close> or \<^verbatim>\<open>col_offset\<close> from a node without it raises \<^verbatim>\<open>AttributeError\<close>. The
  classes of statements and expressions give \<^verbatim>\<open>end_lineno\<close> and \<^verbatim>\<open>end_col_offset\<close> the
  default \<^verbatim>\<open>None\<close>, so a statement or an expression without an end position reads as
  \<^verbatim>\<open>None\<close> there; the class of module nodes has no such default, and reading an end
  position that a module node does not have raises \<^verbatim>\<open>AttributeError\<close>.
\<close>

record node_attributes =
  lineno :: "int option"
  col_offset :: "int option"
  end_lineno :: "int option"
  end_col_offset :: "int option"

definition no_attributes :: node_attributes where
  "no_attributes =
     \<lparr>lineno = None, col_offset = None, end_lineno = None, end_col_offset = None\<rparr>"

datatype ast_error = AttributeError

text \<open>
  The node classes the transformer tells apart. \<open>Str\<close> is a string literal, \<open>Name\<close>
  a name in \<^verbatim>\<open>Load\<close> context; \<open>ExprOther\<close> is any other expression (an expression
  holds no statement, so the transformer leaves every expression as it is).
\<close>

datatype expr =
    Str string node_attributes
  | Name string node_attributes
  | ExprOther node_attributes

text \<open>
  A parameter \<^verbatim>\<open>ast.arg\<close>, and the parameters of a function \<^verbatim>\<open>ast.arguments\<close>: the
  positional-only parameters (those before \<^verbatim>\<open>/\<close>), the parameters that can be passed
  by position or by keyword, the variadic positional parameter \<^verbatim>\<open>*args\<close>, the
  keyword-only parameters and the variadic keyword parameter \<^verbatim>\<open>**kwargs\<close>. (The fields
  \<^verbatim>\<open>defaults\<close> and \<^verbatim>\<open>kw_defaults\<close> hold expressions only and are left out.)
\<close>

datatype arg = arg (arg_name: string) (annotation: "expr option")

datatype arguments =
  arguments (posonlyargs: "arg list") (args: "arg list") (vararg: "arg option")
    (kwonlyargs: "arg list") (kwarg: "arg option")

text \<open>
  Statements: an expression statement, \<^verbatim>\<open>from module import names\<close> (the module is
  \<^verbatim>\<open>None\<close> in a relative import), a function definition, and \<open>StmtOther\<close>, any
  other statement, with the statements nested in it (the body of a class, of a loop,
  of a conditional).
\<close>

datatype stmt =
    Expr expr node_attributes
  | ImportFrom "string option" "string list" node_attributes
  | FunctionDef (name: string) (fun_args: arguments) (body: "stmt list")
      (decorator_list: "expr list") (returns: "expr option") (fun_attributes: node_attributes)
  | StmtOther "stmt list" node_attributes

datatype module_node = Module "stmt list" node_attributes

text \<open>A node of any class, for the variable \<^verbatim>\<open>module_child: AST\<close>.\<close>

datatype AST = ModNode module_node | StmtNode stmt

subsection \<open>The source metadata propagator\<close>

text \<open>The attributes of a statement, and of a node of any class.\<close>

fun stmt_attributes :: "stmt \<Rightarrow> node_attributes" where
  "stmt_attributes (Expr e attrs) = attrs"
| "stmt_attributes (ImportFrom m names attrs) = attrs"
| "stmt_attributes (FunctionDef nm ags bdy decorators rets attrs) = attrs"
| "stmt_attributes (StmtOther children attrs) = attrs"

fun AST_attributes :: "AST \<Rightarrow> node_attributes" where
  "AST_attributes (ModNode (Module node_body attrs)) = attrs"
| "AST_attributes (StmtNode s) = stmt_attributes s"

text \<open>Whether the class of a node gives the end positions the default \<^verbatim>\<open>None\<close>.\<close>

fun has_end_defaults :: "AST \<Rightarrow> bool" where
  "has_end_defaults (ModNode m) = False"
| "has_end_defaults (StmtNode s) = True"

text \<open>
  \<^verbatim>\<open>_copy_node_code_metadata\<close> from the source node onto the attributes of the target
  node; the result is the target's attributes after the assignments, or the
  \<^verbatim>\<open>AttributeError\<close> of the first read of an attribute that the source does not have.
  \<^verbatim>\<open>IS_PYTHON_AT_LEAST_3_8\<close> (\<^verbatim>\<open>beartype._util.py.utilpyversion\<close>) is a parameter.
\<close>

definition copy_node_code_metadata ::
  "bool \<Rightarrow> AST \<Rightarrow> node_attributes \<Rightarrow> ast_error + node_attributes" where
  "copy_node_code_metadata IS_PYTHON_AT_LEAST_3_8 node_src node_trg =
     (case lineno (AST_attributes node_src) of
        None \<Rightarrow> Inl AttributeError
      | Some l \<Rightarrow>
          (case col_offset (AST_attributes node_src) of
             None \<Rightarrow> Inl AttributeError
           | Some c \<Rightarrow>
               (let node_trg' = node_trg\<lparr>lineno := Some l, col_offset := Some c\<rparr>
                in if IS_PYTHON_AT_LEAST_3_8
                   then (if end_lineno (AST_attributes node_src) = None
                            \<and> \<not> has_end_defaults node_src
                         then Inl AttributeError
                         else if end_col_offset (AST_attributes node_src) = None
                            \<and> \<not> has_end_defaults node_src
                         then Inl AttributeError
                         else Inr (node_trg'\<lparr>end_lineno := end_lineno (AST_attributes node_src),
                                     end_col_offset :=
                                       end_col_offset (AST_attributes node_src)\<rparr>))
                   else Inr node_trg')))"

subsection \<open>The node transformer\<close>

text \<open>
  The loop of \<^verbatim>\<open>visit_FunctionDef\<close> over \<^verbatim>\<open>node.args.args\<close>: true at the first
  parameter with an annotation.
\<close>

fun is_args_typed_loop :: "arg list \<Rightarrow> bool" where
  "is_args_typed_loop [] = False"
| "is_args_typed_loop (a # rest) =
     (if annotation a \<noteq> None then True else is_args_typed_loop rest)"

text \<open>
  \<^verbatim>\<open>NodeTransformer.visit\<close> on a statement, and \<^verbatim>\<open>generic_visit\<close> on a list of
  statements. A function definition goes to \<^verbatim>\<open>visit_FunctionDef\<close>, whose body is the
  equation for \<open>FunctionDef\<close>: the two flags, the decoration, and then
  \<^verbatim>\<open>generic_visit\<close>, which visits the statements of the body (the other fields hold
  no statement). Every visitor returns the node it was given, so \<^verbatim>\<open>generic_visit\<close>
  keeps each child in its place.
\<close>

fun visit :: "bool \<Rightarrow> stmt \<Rightarrow> ast_error + stmt"
  and generic_visit_list :: "bool \<Rightarrow> stmt list \<Rightarrow> ast_error + stmt list" where
  "visit py38 (FunctionDef nm ags bdy decorators rets attrs) =
     (let is_return_typed = (rets \<noteq> None);
          is_args_typed = (if \<not> is_return_typed then is_args_typed_loop (args ags) else False)
      in case (if is_return_typed \<or> is_args_typed
               then (case copy_node_code_metadata py38
                            (StmtNode (FunctionDef nm ags bdy decorators rets attrs))
                            no_attributes of
                       Inl e \<Rightarrow> Inl e
                     | Inr name_attrs \<Rightarrow>
                         Inr (decorators @ [Name ''beartype_object_safe'' name_attrs]))
               else Inr decorators) of
           Inl e \<Rightarrow> Inl e
         | Inr decorators' \<Rightarrow>
             (case generic_visit_list py38 bdy of
                Inl e \<Rightarrow> Inl e
              | Inr bdy' \<Rightarrow> Inr (FunctionDef nm ags bdy' decorators' rets attrs)))"
| "visit py38 (StmtOther children attrs) =
     (case generic_visit_list py38 children of
        Inl e \<Rightarrow> Inl e
      | Inr children' \<Rightarrow> Inr (StmtOther children' attrs))"
| "visit py38 (Expr e attrs) = Inr (Expr e attrs)"
| "visit py38 (ImportFrom m names attrs) = Inr (ImportFrom m names attrs)"
| "generic_visit_list py38 [] = Inr []"
| "generic_visit_list py38 (child # rest) =
     (case visit py38 child of
        Inl e \<Rightarrow> Inl e
      | Inr child' \<Rightarrow>
          (case generic_visit_list py38 rest of
             Inl e \<Rightarrow> Inl e
           | Inr rest' \<Rightarrow> Inr (child' # rest')))"

text \<open>
  The loop of \<^verbatim>\<open>visit_Module\<close> over \<^verbatim>\<open>enumerate(node.body)\<close>. The state is the pair of
  the loop variables \<^verbatim>\<open>import_beartype_index\<close> and \<^verbatim>\<open>module_child\<close>, which each round
  assigns. The body of the loop is one \<^verbatim>\<open>if\<close> whose branch is \<^verbatim>\<open>continue\<close>; there is
  no other statement in the loop, so the round ends in both cases and the loop goes
  on to the next child.
\<close>

fun visit_Module_loop :: "int \<times> AST \<Rightarrow> (nat \<times> stmt) list \<Rightarrow> int \<times> AST" where
  "visit_Module_loop st [] = st"
| "visit_Module_loop st ((i, module_child) # rest) =
     (if (case module_child of
            Expr (Str _ _) _ \<Rightarrow> True
          | ImportFrom m _ _ \<Rightarrow> m = Some ''__future__''
          | _ \<Rightarrow> False)
      then visit_Module_loop (int i, StmtNode module_child) rest
      else visit_Module_loop (int i, StmtNode module_child) rest)"

text \<open>\<^verbatim>\<open>list.insert(i, x)\<close>: a negative index counts from the end, and the index is clipped.\<close>

definition list_insert :: "int \<Rightarrow> 'a \<Rightarrow> 'a list \<Rightarrow> 'a list" where
  "list_insert i x xs =
     (let n = int (length xs);
          j = (if i < 0 then max 0 (i + n) else min i n)
      in take (nat j) xs @ [x] @ drop (nat j) xs)"

definition visit_Module :: "bool \<Rightarrow> module_node \<Rightarrow> ast_error + module_node" where
  "visit_Module py38 node =
     (case node of
        Module node_body node_attrs \<Rightarrow>
          (case visit_Module_loop (- 1, ModNode node) (enumerate 0 node_body) of
             (import_beartype_index, module_child) \<Rightarrow>
               (case (if import_beartype_index \<noteq> - 1
                      then (case copy_node_code_metadata py38 (ModNode node) no_attributes of
                              Inl e \<Rightarrow> Inl e
                            | Inr import_attrs \<Rightarrow>
                                Inr (list_insert import_beartype_index
                                       (ImportFrom (Some ''beartype._decor.decorcore'')
                                          [''beartype_object_safe''] import_attrs)
                                       node_body))
                      else Inr node_body) of
                  Inl e \<Rightarrow> Inl e
                | Inr node_body' \<Rightarrow>
                    (case generic_visit_list py38 node_body' of
                       Inl e \<Rightarrow> Inl e
                     | Inr node_body'' \<Rightarrow> Inr (Module node_body'' node_attrs)))))"

text \<open>
  Every function definition in a statement has the attributes \<^verbatim>\<open>lineno\<close> and
  \<^verbatim>\<open>col_offset\<close>, as every statement has that the parser built.
\<close>

fun positioned :: "stmt \<Rightarrow> bool" where
  "positioned (FunctionDef nm ags bdy decorators rets attrs) =
     (lineno attrs \<noteq> None \<and> col_offset attrs \<noteq> None \<and> (\<forall>s \<in> set bdy. positioned s))"
| "positioned (StmtOther children attrs) = (\<forall>s \<in> set children. positioned s)"
| "positioned (Expr e attrs) = True"
| "positioned (ImportFrom m names attrs) = True"

text \<open>The attributes of a node that spans the first five columns of a line, for examples.\<close>

definition at_line :: "int \<Rightarrow> node_attributes" where
  "at_line l =
     \<lparr>lineno = Some l, col_offset = Some 0, end_lineno = Some l, end_col_offset = Some 5\<rparr>"

section \<open>Example collaborators\<close>

text \<open>
  One choice of the external collaborators, for the examples: \<^verbatim>\<open>repr\<close> puts a string
  between single quotes, every tuple has the hash 0 (so that all tuple keys
  collide), a set is iterated in the order of first occurrence, a module attribute
  name is a string with a dot, a class is builtin when its module is
  \<^verbatim>\<open>builtins\<close>, and every class is plain. The importable world is the argument.
\<close>

definition example_externals :: "(string \<Rightarrow> import_result) \<Rightarrow> externals" where
  "example_externals world =
     \<lparr>PARAM_NAME_TYPISTRY = ''__beartypistry'',
      py_repr = (\<lambda>s. CHR 0x27 # s @ [CHR 0x27]),
      py_hash = (\<lambda>items. 0),
      py_tuple_of_set = remdups,
      is_module_attr_name = (\<lambda>s. CHR ''.'' \<in> set s),
      get_object_classname = (\<lambda>cls. class_module cls @ ''.'' @ class_name cls),
      get_object_class_basename = class_name,
      is_class_builtin = (\<lambda>cls. class_module cls = ''builtins''),
      is_classname_builtin = (\<lambda>s. str_startswith s ''builtins.''),
      is_plain_class = (\<lambda>x. case x of PyType cls \<Rightarrow> True | _ \<Rightarrow> False),
      importlib_import_module = world\<rparr>"

text \<open>A world with no module, and one whose module \<^verbatim>\<open>mod\<close> defines the class \<^verbatim>\<open>Cls\<close>.\<close>

definition world_without_modules :: "string \<Rightarrow> import_result" where
  "world_without_modules module_name = ModuleNotFoundError"

definition world_with_mod_Cls :: "string \<Rightarrow> import_result" where
  "world_with_mod_Cls module_name =
     (if module_name = ''mod'' then ImportedModule [(''Cls'', PyType (PyClass ''mod'' ''Cls''))]
      else ModuleNotFoundError)"

section \<open>Properties of the package scope cache\<close>

text \<open>
  Without a configuration on the root of the cache, the loop of
  \<^verbatim>\<open>is_package_registered\<close> never returns \<^verbatim>\<open>True\<close>: its test reads the root again.
\<close>

lemma is_package_registered_loop_unconfigured:
  "conf_if_registered cache = None \<Longrightarrow> \<not> is_package_registered_loop cache bs d"
  by (induction bs arbitrary: d) (auto split: option.splits)

lemma is_package_registered_iff_global:
  "is_package_registered cache package_name \<longleftrightarrow> conf_if_registered cache \<noteq> None"
  by (simp add: is_package_registered_def is_package_registered_loop_unconfigured)

text \<open>
  C2 (the code differs from the claim). Registering \<^verbatim>\<open>"pkg.sub"\<close> with a configuration
  in the empty cache builds the nodes \<^verbatim>\<open>pkg\<close> and \<^verbatim>\<open>sub\<close> and sets the configuration
  of \<^verbatim>\<open>sub\<close>; the query for \<^verbatim>\<open>"pkg.sub.mod"\<close> in that cache then visits the configured
  node \<^verbatim>\<open>sub\<close> and still answers \<^verbatim>\<open>False\<close>, where the claim has it answer \<^verbatim>\<open>True\<close>.
\<close>

theorem is_package_registered_pkg_sub_mod:
  "register_packages (\<lambda>s. s = ''pkg.sub'') (PackageName ''pkg.sub'') (BeartypeConf (1::nat))
     package_cache_empty
   = (None, PackageBasenameToSubpackagesDict None
        [(''pkg'', PackageBasenameToSubpackagesDict None
           [(''sub'', PackageBasenameToSubpackagesDict (Some 1) [])])])
   \<and> \<not> is_package_registered (PackageBasenameToSubpackagesDict None
        [(''pkg'', PackageBasenameToSubpackagesDict None
           [(''sub'', PackageBasenameToSubpackagesDict (Some (1::nat)) [])])]) ''pkg.sub.mod''"
  by (simp add: register_packages_def package_cache_empty_def is_package_registered_def)

text \<open>
  Registering a path whose nodes all exist and whose last node has a configuration
  creates nothing: the walk finds every basename, and the statements after it either
  compare equal or raise.
\<close>

lemma register_package_basenames_registered:
  "package_node bs d = Some node \<Longrightarrow> conf_if_registered node = Some conf_curr \<Longrightarrow>
   register_package_basenames nm conf bs d =
     ((if conf_curr \<noteq> conf then Some (PackageConfDiffers nm conf_curr conf) else None), d)"
proof (induction bs arbitrary: d)
  case Nil
  then show ?case by simp
next
  case (Cons b bs)
  from Cons.prems obtain sub where
    sub: "map_of (subpackages d) b = Some sub" and node: "package_node bs sub = Some node"
    by (auto split: option.splits)
  have "register_package_basenames nm conf bs sub =
     ((if conf_curr \<noteq> conf then Some (PackageConfDiffers nm conf_curr conf) else None), sub)"
    using Cons.IH [OF node Cons.prems(2)] .
  then show ?case
    using sub by (simp add: AList.update_triv)
qed

text \<open>
  C5. Let the path of a valid package name end at a node of the cache that has the
  configuration \<open>conf_curr\<close>. Registering the name again with \<open>conf_curr\<close> raises
  nothing and returns the cache as it was; registering it with any other
  configuration raises the exception that quotes the name, the old and the new
  configuration, and the cache is as it was.
\<close>

theorem register_packages_again:
  assumes "is_identifier package_name"
    and "package_node (str_split CHR ''.'' package_name) cache = Some node"
    and "conf_if_registered node = Some conf_curr"
  shows "register_packages is_identifier (PackageName package_name) (BeartypeConf conf_curr) cache
           = (None, cache)
       \<and> (\<forall>conf. conf \<noteq> conf_curr \<longrightarrow>
            register_packages is_identifier (PackageName package_name) (BeartypeConf conf) cache
              = (Some (PackageConfDiffers package_name conf_curr conf), cache))"
  using assms
  by (auto simp: register_packages_def register_package_basenames_registered)

theorem register_packages_again_witness:
  "register_packages (\<lambda>s. s = ''pkg'') (PackageName ''pkg'') (BeartypeConf (1::nat))
     (PackageBasenameToSubpackagesDict None
        [(''pkg'', PackageBasenameToSubpackagesDict (Some 1) [])])
   = (None, PackageBasenameToSubpackagesDict None
        [(''pkg'', PackageBasenameToSubpackagesDict (Some 1) [])])
   \<and> register_packages (\<lambda>s. s = ''pkg'') (PackageName ''pkg'') (BeartypeConf (2::nat))
     (PackageBasenameToSubpackagesDict None
        [(''pkg'', PackageBasenameToSubpackagesDict (Some 1) [])])
   = (Some (PackageConfDiffers ''pkg'' 1 2), PackageBasenameToSubpackagesDict None
        [(''pkg'', PackageBasenameToSubpackagesDict (Some 1) [])])"
  using register_packages_again [of "\<lambda>s. s = ''pkg''" "''pkg''"
      "PackageBasenameToSubpackagesDict None
        [(''pkg'', PackageBasenameToSubpackagesDict (Some (1::nat)) [])]"
      "PackageBasenameToSubpackagesDict (Some (1::nat)) []" 1]
  by simp

text \<open>
  C10. In a cache whose root has a configuration and whose top-level dictionary has
  no key, \<^verbatim>\<open>is_packages_registered_any\<close> answers \<^verbatim>\<open>False\<close> and
  \<^verbatim>\<open>is_package_registered\<close> answers \<^verbatim>\<open>True\<close> for every name.
\<close>

theorem global_only_registration:
  assumes "conf_if_registered cache \<noteq> None" and "subpackages cache = []"
  shows "\<not> is_packages_registered_any cache
       \<and> (\<forall>package_name. is_package_registered cache package_name)"
  using assms by (simp add: is_packages_registered_any_def is_package_registered_def)

theorem global_only_registration_witness:
  "\<not> is_packages_registered_any (PackageBasenameToSubpackagesDict (Some (1::nat)) [])
   \<and> is_package_registered (PackageBasenameToSubpackagesDict (Some (1::nat)) []) ''pkg.sub''"
  using global_only_registration [of "PackageBasenameToSubpackagesDict (Some (1::nat)) []"]
  by simp

section \<open>Properties of the syntax tree rewriter\<close>

lemma copy_node_code_metadata_positioned:
  "lineno (stmt_attributes s) \<noteq> None \<Longrightarrow> col_offset (stmt_attributes s) \<noteq> None \<Longrightarrow>
   \<exists>a. copy_node_code_metadata py38 (StmtNode s) trg = Inr a"
  by (auto simp: copy_node_code_metadata_def Let_def)

text \<open>The transformer raises nothing on statements whose function definitions have positions.\<close>

lemma visit_positioned:
  "positioned s \<Longrightarrow> \<exists>s'. visit py38 s = Inr s'"
  "(\<forall>s \<in> set ss. positioned s) \<Longrightarrow> \<exists>ss'. generic_visit_list py38 ss = Inr ss'"
proof (induction py38 s and py38 ss rule: visit_generic_visit_list.induct)
  case (1 py38 nm ags bdy decorators rets attrs)
  from "1.prems" have
    "\<exists>a. copy_node_code_metadata py38 (StmtNode (FunctionDef nm ags bdy decorators rets attrs))
       no_attributes = Inr a"
    by (intro copy_node_code_metadata_positioned) simp_all
  then obtain a where a:
    "copy_node_code_metadata py38 (StmtNode (FunctionDef nm ags bdy decorators rets attrs))
       no_attributes = Inr a"
    by blast
  from "1.prems" have "\<forall>s \<in> set bdy. positioned s" by simp
  then obtain bdy' where "generic_visit_list py38 bdy = Inr bdy'"
    using "1.IH" a by (fastforce simp: Let_def split: if_splits)
  then show ?case using a by (simp add: Let_def)
next
  case (2 py38 children attrs)
  then show ?case by fastforce
next
  case (6 py38 child rest)
  then show ?case by fastforce
qed simp_all

lemma is_args_typed_loop_iff:
  "is_args_typed_loop as \<longleftrightarrow> (\<exists>a \<in> set as. annotation a \<noteq> None)"
  by (induction as) auto

text \<open>
  The loop of \<^verbatim>\<open>visit_Module\<close> always runs to the end of the body: it leaves the index
  and the node of the last statement, whatever the statements are.
\<close>

lemma visit_Module_loop_last:
  "visit_Module_loop st (enumerate n node_body) =
     (if node_body = [] then st
      else (int (n + length node_body) - 1, StmtNode (last node_body)))"
  by (induction node_body arbitrary: st n) auto

text \<open>
  C3 (the code differs from the claim). In a module of two ordinary statements the
  import is inserted at index 1, between them, where the claim has index 0; in a
  module that is a docstring only, the import is inserted at index 0, before the
  docstring, where the claim has it after the docstring.
\<close>

theorem visit_Module_insertion_index:
  "visit_Module True (Module [StmtOther [] (at_line 1), StmtOther [] (at_line 2)] (at_line 0)) =
     Inr (Module [StmtOther [] (at_line 1),
                  ImportFrom (Some ''beartype._decor.decorcore'') [''beartype_object_safe'']
                    (at_line 0),
                  StmtOther [] (at_line 2)] (at_line 0))
   \<and> visit_Module True (Module [Expr (Str ''doc'' (at_line 1)) (at_line 1)] (at_line 0)) =
     Inr (Module [ImportFrom (Some ''beartype._decor.decorcore'') [''beartype_object_safe'']
                    (at_line 0),
                  Expr (Str ''doc'' (at_line 1)) (at_line 1)] (at_line 0))"
  by (simp add: visit_Module_def list_insert_def copy_node_code_metadata_def
      no_attributes_def at_line_def)

text \<open>
  What \<^verbatim>\<open>visit_FunctionDef\<close> does on a function definition whose function
  definitions all have positions: it returns the definition with the name
  \<^verbatim>\<open>beartype_object_safe\<close>, carrying the positions of the definition, appended as the
  last decorator when the definition has a return annotation or, having none, a
  parameter of the field \<^verbatim>\<open>args\<close> with an annotation; otherwise the decorator list is
  the one it was. The annotations of the other parameters play no part.
\<close>

lemma visit_FunctionDef_decorates_args_typed:
  assumes "positioned (FunctionDef nm ags bdy decorators rets attrs)"
  shows "\<exists>bdy' name_attrs.
           copy_node_code_metadata py38 (StmtNode (FunctionDef nm ags bdy decorators rets attrs))
             no_attributes = Inr name_attrs \<and>
           generic_visit_list py38 bdy = Inr bdy' \<and>
           visit py38 (FunctionDef nm ags bdy decorators rets attrs) =
             Inr (FunctionDef nm ags bdy'
                    (if rets \<noteq> None \<or> (rets = None \<and> (\<exists>a \<in> set (args ags). annotation a \<noteq> None))
                     then decorators @ [Name ''beartype_object_safe'' name_attrs]
                     else decorators)
                    rets attrs)"
proof -
  from assms have
    "\<exists>a. copy_node_code_metadata py38 (StmtNode (FunctionDef nm ags bdy decorators rets attrs))
       no_attributes = Inr a"
    by (intro copy_node_code_metadata_positioned) simp_all
  then obtain a where a:
    "copy_node_code_metadata py38 (StmtNode (FunctionDef nm ags bdy decorators rets attrs))
       no_attributes = Inr a"
    by blast
  from assms have "\<forall>s \<in> set bdy. positioned s" by simp
  then obtain bdy' where b: "generic_visit_list py38 bdy = Inr bdy'"
    using visit_positioned(2) by blast
  show ?thesis
    using a b by (auto simp: Let_def is_args_typed_loop_iff)
qed

lemma visit_FunctionDef_decorates_args_typed_example:
  "visit True (FunctionDef ''f''
                 (arguments [] [arg ''x'' (Some (Name ''int'' (at_line 1)))] None [] None) []
                 [Name ''staticmethod'' (at_line 0)] None (at_line 1)) =
     Inr (FunctionDef ''f''
            (arguments [] [arg ''x'' (Some (Name ''int'' (at_line 1)))] None [] None) []
            [Name ''staticmethod'' (at_line 0), Name ''beartype_object_safe'' (at_line 1)]
            None (at_line 1))"
  by (simp add: at_line_def copy_node_code_metadata_def no_attributes_def)

text \<open>
  C4 (the code differs from the claim). The function \<^verbatim>\<open>def g(x: int, /): ...\<close> has no
  return annotation and one positional parameter, which is positional-only and has an
  annotation; the function \<^verbatim>\<open>def h(*xs: int): ...\<close> has an annotated variadic positional
  parameter. The claim has the decoration appended to both. The transformer loops
  over the field \<^verbatim>\<open>args\<close> only, finds no annotation, and returns both definitions
  with the empty decorator list they had.
\<close>

theorem visit_FunctionDef_positional_only_undecorated:
  "visit True (FunctionDef ''g''
                 (arguments [arg ''x'' (Some (Name ''int'' (at_line 1)))] [] None [] None) []
                 [] None (at_line 1)) =
     Inr (FunctionDef ''g''
            (arguments [arg ''x'' (Some (Name ''int'' (at_line 1)))] [] None [] None) []
            [] None (at_line 1))
   \<and> visit True (FunctionDef ''h''
                 (arguments [] [] (Some (arg ''xs'' (Some (Name ''int'' (at_line 1))))) [] None)
                 [] [] None (at_line 1)) =
     Inr (FunctionDef ''h''
            (arguments [] [] (Some (arg ''xs'' (Some (Name ''int'' (at_line 1))))) [] None)
            [] [] None (at_line 1))"
  by simp

text \<open>
  C7 (the code differs from the claim). In a module of one statement at line 7
  whose module node has positions of its own (line 0), the inserted import has the
  positions of the module node, where the claim has those of the statement at the
  insertion point. When the module node has no \<^verbatim>\<open>lineno\<close>, as a module node that the
  parser built, the copy raises \<^verbatim>\<open>AttributeError\<close>.
\<close>

theorem visit_Module_metadata_source:
  "visit_Module True (Module [StmtOther [] (at_line 7)] (at_line 0)) =
     Inr (Module [ImportFrom (Some ''beartype._decor.decorcore'') [''beartype_object_safe'']
                    (at_line 0),
                  StmtOther [] (at_line 7)] (at_line 0))
   \<and> visit_Module True (Module [StmtOther [] (at_line 7)] no_attributes) = Inl AttributeError"
  by (simp add: visit_Module_def list_insert_def copy_node_code_metadata_def
      no_attributes_def at_line_def)

section \<open>Properties of the hint registry\<close>

text \<open>A lookup returns the dictionary as it was, whether the key is present or not.\<close>

lemma Beartypistry_getitem_keeps_store:
  "snd (Beartypistry_getitem ext self hint_classname) = self"
  by (simp add: Beartypistry_getitem_def split: option.splits)

text \<open>
  C1 (the code differs from the claim). In a world where \<^verbatim>\<open>mod.Cls\<close> is a class, the
  lookup of \<^verbatim>\<open>"mod.Cls"\<close> in the empty registry returns the class and leaves the
  registry empty, where the claim has the pair stored. The same lookup in the
  registry it left, made when the module cannot be imported, raises: the class of
  the first lookup was not kept, and the second lookup imports again.
\<close>

theorem Beartypistry_getitem_stores_nothing:
  "Beartypistry_getitem (example_externals world_with_mod_Cls) [] ''mod.Cls'' =
     (Inr (PyType (PyClass ''mod'' ''Cls'')), [])
   \<and> Beartypistry_getitem (example_externals world_without_modules) [] ''mod.Cls'' =
     (Inl BeartypeCallHintForwardRefException, [])"
  by (simp add: Beartypistry_getitem_def Beartypistry_missing_def import_module_attr_def
      import_module_attr_or_none_def import_module_def example_externals_def
      world_with_mod_Cls_def world_without_modules_def str_rpartition_def)

text \<open>
  C9. \<^verbatim>\<open>register_typistry_forwardref\<close> raises
  \<^verbatim>\<open>BeartypeDecorHintForwardRefException\<close> when the name is not a valid module
  attribute name, and returns the expression for the name otherwise; in both cases
  the registry is as it was, and the result is the same in every importable world
  (it imports nothing). For a valid name that is not a key, the lookup imports the
  module named before the last dot: it raises \<^verbatim>\<open>BeartypeCallHintForwardRefException\<close>
  when the module is not found, when the module has no such attribute, or when the
  attribute is not a class; it propagates an exception of the import; and it returns
  the class when the attribute is one.
\<close>

theorem forwardref_deferred:
  "register_typistry_forwardref ext bear_typistry hint_classname =
     ((if is_module_attr_name ext hint_classname
       then Inr (code_typistry_hint_name_to_hint ext hint_classname)
       else Inl BeartypeDecorHintForwardRefException), bear_typistry)
   \<and> register_typistry_forwardref (ext\<lparr>importlib_import_module := world\<rparr>)
        bear_typistry hint_classname =
      register_typistry_forwardref ext bear_typistry hint_classname
   \<and> (is_module_attr_name ext hint_classname \<and> \<not> Beartypistry_contains bear_typistry hint_classname \<longrightarrow>
        Beartypistry_getitem ext bear_typistry hint_classname =
          (case str_rpartition CHR ''.'' hint_classname of
             (module_name, sep, module_attr_basename) \<Rightarrow>
               (case importlib_import_module ext module_name of
                  ModuleNotFoundError \<Rightarrow> Inl BeartypeCallHintForwardRefException
                | ImportRaises e \<Rightarrow> Inl (ImportTimeException e)
                | ImportedModule attrs \<Rightarrow>
                    (case map_of attrs module_attr_basename of
                       Some (PyType cls) \<Rightarrow> Inr (PyType cls)
                     | _ \<Rightarrow> Inl BeartypeCallHintForwardRefException)),
           bear_typistry))"
  by (auto simp: register_typistry_forwardref_def code_typistry_hint_name_to_hint_def
      Beartypistry_getitem_def Beartypistry_contains_def Beartypistry_missing_def
      import_module_attr_def import_module_attr_or_none_def import_module_def
      split: prod.splits import_result.splits option.splits pyobj.splits)

theorem forwardref_deferred_witness:
  "register_typistry_forwardref (example_externals world_without_modules) [] ''mod.Cls'' =
     (Inr (''__beartypistry['' @ CHR 0x27 # ''mod.Cls'' @ CHR 0x27 # '']''), [])
   \<and> Beartypistry_getitem (example_externals world_without_modules) [] ''mod.Cls'' =
     (Inl BeartypeCallHintForwardRefException, [])
   \<and> Beartypistry_getitem (example_externals world_with_mod_Cls) [] ''mod.Cls'' =
     (Inr (PyType (PyClass ''mod'' ''Cls'')), [])"
  using forwardref_deferred [of "example_externals world_without_modules" "[]" "''mod.Cls''"
      world_with_mod_Cls]
    forwardref_deferred [of "example_externals world_with_mod_Cls" "[]" "''mod.Cls''"
      world_without_modules]
  by (simp add: example_externals_def world_with_mod_Cls_def world_without_modules_def
      str_rpartition_def code_typistry_hint_name_to_hint_def Beartypistry_contains_def)

text \<open>
  What the guard of \<^verbatim>\<open>__setitem__\<close> does: it raises exactly when the key is not a
  string; or the key is present; or the value is a class whose own name differs from
  the key and is not a builtin classname; or the value is a tuple whose key does not
  start with \<^verbatim>\<open>+\<close> or that has an item that is not a plain class; or the value is
  neither a class nor a tuple. When it raises, the registry is as it was; otherwise
  the pair is added.
\<close>

lemma Beartypistry_setitem_raises_iff:
  "(fst (Beartypistry_setitem ext self key hint) \<noteq> None \<longleftrightarrow>
      (\<forall>hint_name. key \<noteq> PyStr hint_name)
    \<or> (\<exists>hint_name. key = PyStr hint_name \<and> Beartypistry_contains self hint_name)
    \<or> (\<exists>hint_name cls. key = PyStr hint_name \<and> hint = PyType cls
          \<and> hint_name \<noteq> get_object_classname ext cls
          \<and> \<not> is_classname_builtin ext (get_object_classname ext cls))
    \<or> (\<exists>hint_name items. key = PyStr hint_name \<and> hint = PyTuple items
          \<and> (\<not> str_startswith hint_name ''+'' \<or> \<not> list_all (is_plain_class ext) items))
    \<or> ((\<forall>cls. hint \<noteq> PyType cls) \<and> (\<forall>items. hint \<noteq> PyTuple items)))
   \<and> (fst (Beartypistry_setitem ext self key hint) \<noteq> None \<longrightarrow>
        Beartypistry_setitem ext self key hint
          = (Some BeartypeDecorBeartypistryException, self))
   \<and> (fst (Beartypistry_setitem ext self key hint) = None \<longrightarrow>
        (\<exists>hint_name. key = PyStr hint_name
           \<and> snd (Beartypistry_setitem ext self key hint) = self @ [(hint_name, hint)]))"
  by (cases key; cases hint)
     (auto simp: Beartypistry_setitem_def die_unless_hint_nonpep_def Let_def)

text \<open>
  C6 (the code differs from the claim). The class \<^verbatim>\<open>int\<close> of the module \<^verbatim>\<open>builtins\<close> is
  assigned to the key \<^verbatim>\<open>"anything"\<close> of the empty registry. The key differs from the
  name \<^verbatim>\<open>builtins.int\<close> of the class, and the key is neither a builtin classname nor
  the short name \<^verbatim>\<open>int\<close> of the class, so the claim has the assignment raise. The
  guard exempts every class whose own name is a builtin classname, whatever the key:
  nothing is raised and the pair is stored.
\<close>

theorem Beartypistry_setitem_builtin_class_any_key:
  "Beartypistry_setitem (example_externals world_without_modules) []
          (PyStr ''anything'') (PyType (PyClass ''builtins'' ''int''))
     = (None, [(''anything'', PyType (PyClass ''builtins'' ''int''))])
   \<and> ''anything'' \<noteq> get_object_classname (example_externals world_without_modules)
                        (PyClass ''builtins'' ''int'')
   \<and> \<not> is_classname_builtin (example_externals world_without_modules) ''anything''
   \<and> ''anything'' \<noteq> get_object_class_basename (example_externals world_without_modules)
                        (PyClass ''builtins'' ''int'')"
  by (simp add: Beartypistry_setitem_def example_externals_def Beartypistry_contains_def
      str_startswith_def)

text \<open>
  The name the loop returns is not a key, and it is the name it was given followed by
  markers \<^verbatim>\<open>~\<close>, every shorter such name being a key.
\<close>

lemma disambiguate_hint_name_unused:
  "\<not> Beartypistry_contains bear_typistry (disambiguate_hint_name bear_typistry hint_name)"
proof (induction bear_typistry hint_name rule: disambiguate_hint_name.induct)
  case (1 bear_typistry hint_name)
  then show ?case
    by (cases "Beartypistry_contains bear_typistry hint_name")
       (simp_all add: disambiguate_hint_name.simps [of bear_typistry hint_name])
qed

lemma disambiguate_hint_name_markers:
  "\<exists>n. disambiguate_hint_name bear_typistry hint_name = hint_name @ replicate n CHR ''~''
       \<and> (\<forall>j<n. Beartypistry_contains bear_typistry (hint_name @ replicate j CHR ''~''))"
proof (induction bear_typistry hint_name rule: disambiguate_hint_name.induct)
  case (1 bear_typistry hint_name)
  show ?case
  proof (cases "Beartypistry_contains bear_typistry hint_name")
    case False
    then have "disambiguate_hint_name bear_typistry hint_name = hint_name @ replicate 0 CHR ''~''"
      by (simp add: disambiguate_hint_name.simps [of bear_typistry hint_name])
    then show ?thesis by blast
  next
    case True
    from "1.IH" [OF True] obtain n where
      n: "disambiguate_hint_name bear_typistry (hint_name @ ''~'') =
            (hint_name @ ''~'') @ replicate n CHR ''~''"
      and used: "\<forall>j<n. Beartypistry_contains bear_typistry
                          ((hint_name @ ''~'') @ replicate j CHR ''~'')"
      by blast
    have eq: "disambiguate_hint_name bear_typistry hint_name =
                hint_name @ replicate (Suc n) CHR ''~''"
      using True n by (simp add: disambiguate_hint_name.simps [of bear_typistry hint_name])
    have "\<forall>j<Suc n. Beartypistry_contains bear_typistry (hint_name @ replicate j CHR ''~'')"
    proof (intro allI impI)
      fix j assume "j < Suc n"
      show "Beartypistry_contains bear_typistry (hint_name @ replicate j CHR ''~'')"
      proof (cases j)
        case 0
        then show ?thesis using True by simp
      next
        case (Suc i)
        then have "i < n" using \<open>j < Suc n\<close> by simp
        then show ?thesis using used Suc by simp
      qed
    qed
    then show ?thesis using eq by blast
  qed
qed

lemma Beartypistry_setitem_tuple:
  "\<not> Beartypistry_contains bear_typistry hint_name \<Longrightarrow>
   list_all (is_plain_class ext) items \<Longrightarrow> str_startswith hint_name ''+'' \<Longrightarrow>
   Beartypistry_setitem ext bear_typistry (PyStr hint_name) (PyTuple items) =
     (None, bear_typistry @ [(hint_name, PyTuple items)])"
  by (simp add: Beartypistry_setitem_def die_unless_hint_nonpep_def)

lemma register_typistry_tuple_registers:
  assumes "length items \<noteq> 1"
    and "hint = (if is_types_unique then items else py_tuple_of_set ext items)"
    and "list_all (is_plain_class ext) hint"
    and "hint_name = disambiguate_hint_name bear_typistry (''+'' @ str_of_int (py_hash ext hint))"
  shows "register_typistry_tuple ext bear_typistry (PyTuple items) is_types_unique =
           (Inr (code_typistry_hint_name_to_hint ext hint_name),
            bear_typistry @ [(hint_name, PyTuple hint)])"
proof -
  obtain n where "hint_name = (''+'' @ str_of_int (py_hash ext hint)) @ replicate n CHR ''~''"
    using disambiguate_hint_name_markers assms(4) by blast
  then have pre: "str_startswith hint_name ''+''"
    by (simp add: str_startswith_def)
  have unused: "\<not> Beartypistry_contains bear_typistry hint_name"
    using disambiguate_hint_name_unused assms(4) by simp
  have set: "Beartypistry_setitem ext bear_typistry (PyStr hint_name) (PyTuple hint) =
     (None, bear_typistry @ [(hint_name, PyTuple hint)])"
    using Beartypistry_setitem_tuple [OF unused assms(3) pre] .
  have unfold: "register_typistry_tuple ext bear_typistry (PyTuple items) is_types_unique =
     (case Beartypistry_setitem ext bear_typistry (PyStr hint_name) (PyTuple hint) of
        (Some e, bear_typistry') \<Rightarrow> (Inl e, bear_typistry')
      | (None, bear_typistry') \<Rightarrow>
          (Inr (code_typistry_hint_name_to_hint ext hint_name), bear_typistry'))"
    unfolding assms(2,4) using assms(1)
    by (cases items; cases "tl items")
       (auto simp: register_typistry_tuple_def Let_def split: list.splits prod.splits option.splits)
  show ?thesis
    unfolding unfold set by simp
qed

text \<open>
  C8 (as the claim states it, refuted). With \<^verbatim>\<open>is_types_unique\<close> false the tuple
  \<^verbatim>\<open>(X, X, Y)\<close> is registered as the coercion of its set, \<^verbatim>\<open>(X, Y)\<close>. Registering it
  and then \<^verbatim>\<open>(Z, W)\<close>, whose key collides, succeeds with the keys \<^verbatim>\<open>+0\<close> and \<^verbatim>\<open>+0~\<close>,
  but the key \<^verbatim>\<open>+0\<close> does not map back to the tuple \<^verbatim>\<open>(X, X, Y)\<close> that was passed.
\<close>

theorem register_typistry_tuple_duplicates_counterexample:
  "register_typistry_tuple (example_externals world_without_modules) []
     (PyTuple [PyType (PyClass ''mod'' ''X''), PyType (PyClass ''mod'' ''X''),
               PyType (PyClass ''mod'' ''Y'')]) False =
     (Inr (''__beartypistry['' @ CHR 0x27 # ''+0'' @ CHR 0x27 # '']''),
      [(''+0'', PyTuple [PyType (PyClass ''mod'' ''X''), PyType (PyClass ''mod'' ''Y'')])])
   \<and> register_typistry_tuple (example_externals world_without_modules)
     [(''+0'', PyTuple [PyType (PyClass ''mod'' ''X''), PyType (PyClass ''mod'' ''Y'')])]
     (PyTuple [PyType (PyClass ''mod'' ''Z''), PyType (PyClass ''mod'' ''W'')]) False =
     (Inr (''__beartypistry['' @ CHR 0x27 # ''+0~'' @ CHR 0x27 # '']''),
      [(''+0'', PyTuple [PyType (PyClass ''mod'' ''X''), PyType (PyClass ''mod'' ''Y'')]),
       (''+0~'', PyTuple [PyType (PyClass ''mod'' ''Z''), PyType (PyClass ''mod'' ''W'')])])
   \<and> map_of
        [(''+0'', PyTuple [PyType (PyClass ''mod'' ''X''), PyType (PyClass ''mod'' ''Y'')]),
         (''+0~'', PyTuple [PyType (PyClass ''mod'' ''Z''), PyType (PyClass ''mod'' ''W'')])]
        ''+0''
      \<noteq> Some (PyTuple [PyType (PyClass ''mod'' ''X''), PyType (PyClass ''mod'' ''X''),
                       PyType (PyClass ''mod'' ''Y'')])"
  by (simp add: register_typistry_tuple_def Beartypistry_setitem_def
      die_unless_hint_nonpep_def code_typistry_hint_name_to_hint_def example_externals_def
      disambiguate_hint_name.simps Beartypistry_contains_def str_startswith_def
      str_of_int_def digit_char_def)

text \<open>
  C8 (amended). Let \<open>A\<close> and \<open>B\<close> be two different tuples of two or more items, whose
  registered forms (the tuple itself when \<^verbatim>\<open>is_types_unique\<close>, and \<^verbatim>\<open>tuple(set(hint))\<close>
  otherwise) hold plain classes only and have the same hash, so that both start from
  the same key \<open>hint_name\<close>. Registering \<open>A\<close> and then \<open>B\<close> succeeds both times. The
  keys are \<open>hint_name\<close> followed by \<open>m\<close> and by \<open>n\<close> markers \<^verbatim>\<open>~\<close> with \<open>m < n\<close>, so
  they differ; when \<open>B\<close> is registered every key with fewer than \<open>n\<close> markers is in
  use and the one with \<open>n\<close> is not; and afterwards each key maps to the registered
  form of its own tuple.
\<close>

theorem register_typistry_tuple_collision:
  assumes "2 \<le> length A" and "2 \<le> length B" and "A \<noteq> B"
    and "hintA = (if uniqueA then A else py_tuple_of_set ext A)"
    and "hintB = (if uniqueB then B else py_tuple_of_set ext B)"
    and "list_all (is_plain_class ext) hintA" and "list_all (is_plain_class ext) hintB"
    and "py_hash ext hintA = py_hash ext hintB"
    and "hint_name = ''+'' @ str_of_int (py_hash ext hintA)"
  shows "\<exists>m n typistry1 typistry2.
           register_typistry_tuple ext bear_typistry (PyTuple A) uniqueA =
             (Inr (code_typistry_hint_name_to_hint ext (hint_name @ replicate m CHR ''~'')),
              typistry1)
         \<and> register_typistry_tuple ext typistry1 (PyTuple B) uniqueB =
             (Inr (code_typistry_hint_name_to_hint ext (hint_name @ replicate n CHR ''~'')),
              typistry2)
         \<and> m < n
         \<and> (\<forall>j<n. Beartypistry_contains typistry1 (hint_name @ replicate j CHR ''~''))
         \<and> \<not> Beartypistry_contains typistry1 (hint_name @ replicate n CHR ''~'')
         \<and> map_of typistry2 (hint_name @ replicate m CHR ''~'') = Some (PyTuple hintA)
         \<and> map_of typistry2 (hint_name @ replicate n CHR ''~'') = Some (PyTuple hintB)"
proof -
  obtain m where m: "disambiguate_hint_name bear_typistry hint_name =
                       hint_name @ replicate m CHR ''~''"
    using disambiguate_hint_name_markers by blast
  define kA where "kA = hint_name @ replicate m CHR ''~''"
  define typistry1 where "typistry1 = bear_typistry @ [(kA, PyTuple hintA)]"
  have unusedA: "\<not> Beartypistry_contains bear_typistry kA"
    using disambiguate_hint_name_unused [of bear_typistry hint_name] m kA_def by simp
  have regA: "register_typistry_tuple ext bear_typistry (PyTuple A) uniqueA =
           (Inr (code_typistry_hint_name_to_hint ext kA), typistry1)"
    unfolding typistry1_def
    using register_typistry_tuple_registers [of A hintA uniqueA ext kA bear_typistry]
      assms(1,4,6,9) m kA_def by simp
  obtain n where n: "disambiguate_hint_name typistry1 hint_name =
                       hint_name @ replicate n CHR ''~''"
    and used: "\<forall>j<n. Beartypistry_contains typistry1 (hint_name @ replicate j CHR ''~'')"
    using disambiguate_hint_name_markers by blast
  define kB where "kB = hint_name @ replicate n CHR ''~''"
  define typistry2 where "typistry2 = typistry1 @ [(kB, PyTuple hintB)]"
  have unusedB: "\<not> Beartypistry_contains typistry1 kB"
    using disambiguate_hint_name_unused [of typistry1 hint_name] n kB_def by simp
  have regB: "register_typistry_tuple ext typistry1 (PyTuple B) uniqueB =
           (Inr (code_typistry_hint_name_to_hint ext kB), typistry2)"
    unfolding typistry2_def
    using register_typistry_tuple_registers [of B hintB uniqueB ext kB typistry1]
      assms(2,5,7,8,9) n kB_def by simp
  have inA: "Beartypistry_contains typistry1 kA"
    by (simp add: typistry1_def Beartypistry_contains_def)
  have lookA1: "map_of typistry1 kA = Some (PyTuple hintA)"
    using unusedA by (simp add: typistry1_def Beartypistry_contains_def map_add_def)
  have "m < n"
  proof (rule ccontr)
    assume "\<not> m < n"
    then have "n \<le> m" by simp
    have "n \<noteq> m" using inA unusedB kA_def kB_def by auto
    then have "n < m" using \<open>n \<le> m\<close> by simp
    have "\<forall>j<m. Beartypistry_contains bear_typistry (hint_name @ replicate j CHR ''~'')"
    proof -
      obtain m' where m': "disambiguate_hint_name bear_typistry hint_name =
                       hint_name @ replicate m' CHR ''~''"
        and u: "\<forall>j<m'. Beartypistry_contains bear_typistry (hint_name @ replicate j CHR ''~'')"
        using disambiguate_hint_name_markers by blast
      from m m' have "m' = m" by simp
      then show ?thesis using u by simp
    qed
    then have "Beartypistry_contains bear_typistry kB" using \<open>n < m\<close> kB_def by simp
    then have "Beartypistry_contains typistry1 kB"
      by (auto simp: typistry1_def Beartypistry_contains_def map_add_def split: option.splits)
    then show False using unusedB by simp
  qed
  have lookA: "map_of typistry2 kA = Some (PyTuple hintA)"
    using lookA1 by (simp add: typistry2_def map_add_def)
  have lookB: "map_of typistry2 kB = Some (PyTuple hintB)"
    using unusedB by (simp add: typistry2_def Beartypistry_contains_def map_add_def)
  show ?thesis
    using regA regB \<open>m < n\<close> used unusedB lookA lookB unfolding kA_def kB_def by blast
qed

theorem register_typistry_tuple_collision_witness:
  "register_typistry_tuple (example_externals world_without_modules) []
     (PyTuple [PyType (PyClass ''mod'' ''X''), PyType (PyClass ''mod'' ''Y'')]) True =
     (Inr (''__beartypistry['' @ CHR 0x27 # ''+0'' @ CHR 0x27 # '']''),
      [(''+0'', PyTuple [PyType (PyClass ''mod'' ''X''), PyType (PyClass ''mod'' ''Y'')])])
   \<and> register_typistry_tuple (example_externals world_without_modules)
     [(''+0'', PyTuple [PyType (PyClass ''mod'' ''X''), PyType (PyClass ''mod'' ''Y'')])]
     (PyTuple [PyType (PyClass ''mod'' ''Z''), PyType (PyClass ''mod'' ''W'')]) True =
     (Inr (''__beartypistry['' @ CHR 0x27 # ''+0~'' @ CHR 0x27 # '']''),
      [(''+0'', PyTuple [PyType (PyClass ''mod'' ''X''), PyType (PyClass ''mod'' ''Y'')]),
       (''+0~'', PyTuple [PyType (PyClass ''mod'' ''Z''), PyType (PyClass ''mod'' ''W'')])])"
  using register_typistry_tuple_collision [of
      "[PyType (PyClass ''mod'' ''X''), PyType (PyClass ''mod'' ''Y'')]"
      "[PyType (PyClass ''mod'' ''Z''), PyType (PyClass ''mod'' ''W'')]"
      "[PyType (PyClass ''mod'' ''X''), PyType (PyClass ''mod'' ''Y'')]" True
      "example_externals world_without_modules"
      "[PyType (PyClass ''mod'' ''Z''), PyType (PyClass ''mod'' ''W'')]" True
      "''+0''" "[]"]
  by (simp add: register_typistry_tuple_def Beartypistry_setitem_def
      die_unless_hint_nonpep_def code_typistry_hint_name_to_hint_def example_externals_def
      disambiguate_hint_name.simps Beartypistry_contains_def str_startswith_def
      str_of_int_def digit_char_def)

end
